theory Spec2Isabelle
  imports Main
begin

section \<open>Values of the parsed specification, requests and responses\<close>

text \<open>
  The specification is what \<^verbatim>\<open>yaml.safe_load\<close> or \<^verbatim>\<open>json.load\<close> returns: a tree of
  Python values. \<open>JNull\<close> is Python's \<^verbatim>\<open>None\<close>. A \<^verbatim>\<open>dict\<close> is the list of its items in
  insertion order, with string keys (the keys of a JSON document); floating point numbers
  are left out. A string is a list of 8-bit characters.
\<close>

datatype jsonv =
    JNull
  | JBool bool
  | JNum int
  | JStr string
  | JArr "jsonv list"
  | JObj "(string \<times> jsonv) list"

text \<open>The exceptions the modelled code can raise.\<close>

datatype py_error =
    AttributeError
  | TypeError
  | KeyError
  | NonStringKey
  | RouterError

text \<open>
  \<open>NonStringKey\<close> is not a Python exception: it marks the one place where the source leaves
  the values above, a parameter whose \<^verbatim>\<open>name\<close> is \<^verbatim>\<open>None\<close>, a boolean or a number and
  would become a non-string key of \<^verbatim>\<open>query_params\<close>. \<open>RouterError\<close> stands for whatever
  Flask's own \<^verbatim>\<open>add_url_rule\<close> raises.
\<close>

subsection \<open>Dictionaries\<close>

text \<open>\<^verbatim>\<open>d.get(k)\<close>: the value stored under \<open>k\<close>, if any.\<close>

definition dict_get :: "(string \<times> jsonv) list \<Rightarrow> string \<Rightarrow> jsonv option" where
  "dict_get d k = map_of d k"

text \<open>\<^verbatim>\<open>d[k] = v\<close>: an existing key keeps its position, a new key goes last.\<close>

fun dict_set :: "string \<Rightarrow> jsonv \<Rightarrow> (string \<times> jsonv) list \<Rightarrow> (string \<times> jsonv) list" where
  "dict_set k v [] = [(k, v)]"
| "dict_set k v ((k', v') # d) =
     (if k' = k then (k', v) # d else (k', v') # dict_set k v d)"

text \<open>\<^verbatim>\<open>d.update(items)\<close>, the step behind each \<^verbatim>\<open>**x\<close> of a dict display.\<close>

definition dict_update :: "(string \<times> jsonv) list \<Rightarrow> (string \<times> jsonv) list \<Rightarrow> (string \<times> jsonv) list" where
  "dict_update d items = foldl (\<lambda>acc (k, v). dict_set k v acc) d items"

text \<open>\<^verbatim>\<open>x.get(k, default)\<close>: only a dict has \<^verbatim>\<open>get\<close>.\<close>

definition py_get :: "jsonv \<Rightarrow> string \<Rightarrow> jsonv \<Rightarrow> py_error + jsonv" where
  "py_get x k dflt =
     (case x of
        JObj d \<Rightarrow> Inr (case dict_get d k of None \<Rightarrow> dflt | Some v \<Rightarrow> v)
      | _ \<Rightarrow> Inl AttributeError)"

text \<open>\<^verbatim>\<open>x[k]\<close> with a string \<open>k\<close>: a missing key raises, and so does every non-dict.\<close>

definition py_index :: "jsonv \<Rightarrow> string \<Rightarrow> py_error + jsonv" where
  "py_index x k =
     (case x of
        JObj d \<Rightarrow> (case dict_get d k of None \<Rightarrow> Inl KeyError | Some v \<Rightarrow> Inr v)
      | _ \<Rightarrow> Inl TypeError)"

fun starts_with :: "string \<Rightarrow> string \<Rightarrow> bool" where
  "starts_with [] s = True"
| "starts_with (a # p) [] = False"
| "starts_with (a # p) (b # s) = (a = b \<and> starts_with p s)"

fun contains :: "string \<Rightarrow> string \<Rightarrow> bool" where
  "contains k [] = (k = [])"
| "contains k (c # s) = (starts_with k (c # s) \<or> contains k s)"

text \<open>
  \<^verbatim>\<open>k in x\<close> with a string \<open>k\<close>: a key of a dict, an element of a list, a substring of a
  string; anything else is not iterable.
\<close>

definition py_in :: "string \<Rightarrow> jsonv \<Rightarrow> py_error + bool" where
  "py_in k x =
     (case x of
        JObj d \<Rightarrow> Inr (dict_get d k \<noteq> None)
      | JArr xs \<Rightarrow> Inr (List.member xs (JStr k))
      | JStr s \<Rightarrow> Inr (contains k s)
      | _ \<Rightarrow> Inl TypeError)"

text \<open>\<^verbatim>\<open>for item in x\<close>: the elements of a list, the keys of a dict, the characters of a string.\<close>

definition py_iter :: "jsonv \<Rightarrow> py_error + jsonv list" where
  "py_iter x =
     (case x of
        JArr xs \<Rightarrow> Inr xs
      | JObj d \<Rightarrow> Inr (map (\<lambda>(k, v). JStr k) d)
      | JStr s \<Rightarrow> Inr (map (\<lambda>c. JStr [c]) s)
      | _ \<Rightarrow> Inl TypeError)"

subsection \<open>Strings\<close>

text \<open>\<^verbatim>\<open>str.upper\<close> on ASCII letters; every other character is kept.\<close>

definition upper_char :: "char \<Rightarrow> char" where
  "upper_char c =
     (let n = (of_char c :: nat) in if 97 \<le> n \<and> n \<le> 122 then char_of (n - 32) else c)"

definition upper :: "string \<Rightarrow> string" where
  "upper s = map upper_char s"

text \<open>
  \<^verbatim>\<open>s.replace(old, new)\<close>: every occurrence of \<open>old\<close>, left to right and without overlap;
  an empty \<open>old\<close> matches before every character and at the end.
\<close>

fun str_replace :: "string \<Rightarrow> string \<Rightarrow> string \<Rightarrow> string" where
  "str_replace old new [] = (if old = [] then new else [])"
| "str_replace old new (c # s) =
     (if old = [] then new @ c # str_replace old new s
      else if starts_with old (c # s) then new @ str_replace old new (drop (length old) (c # s))
      else c # str_replace old new s)"

text \<open>The decimal digits of an integer, as an f-string writes it.\<close>

fun str_nat :: "nat \<Rightarrow> string" where
  "str_nat n = (if n < 10 then [char_of (48 + n)] else str_nat (n div 10) @ [char_of (48 + n mod 10)])"

declare str_nat.simps [simp del]

definition str_int :: "int \<Rightarrow> string" where
  "str_int i = (if i < 0 then CHR ''-'' # str_nat (nat (- i)) else str_nat (nat i))"

section \<open>The source's functions\<close>

subsection \<open>\<^verbatim>\<open>generate_default_response\<close> and \<^verbatim>\<open>convert_path\<close>\<close>

definition generate_default_response :: "int \<Rightarrow> string \<Rightarrow> jsonv" where
  "generate_default_response status media_type =
     (if media_type = ''application/json''
      then JObj [(''status'', JNum status), (''message'', JStr ''Default response'')]
      else JStr (''Default response with status '' @ str_int status))"

definition convert_path :: "string \<Rightarrow> string" where
  "convert_path openapi_path = str_replace ''}'' ''>'' (str_replace ''{'' ''<'' openapi_path)"

text \<open>What the specification says of path conversion, character by character.\<close>

definition brace_to_angle :: "char \<Rightarrow> char" where
  "brace_to_angle c = (if c = CHR ''{'' then CHR ''<'' else if c = CHR ''}'' then CHR ''>'' else c)"

subsection \<open>Requests and responses\<close>

text \<open>
  What a handler reads of Flask's \<^verbatim>\<open>request\<close>: \<open>args\<close> is the query string's multi-dict
  (one item per \<^verbatim>\<open>name=value\<close>, in order), \<open>content_type\<close> the header (\<^verbatim>\<open>None\<close> when
  absent), and \<open>json\<close> the body read as JSON text: \<open>Some\<close> of the value it parses to, or
  \<open>None\<close> when it does not parse. Parsing JSON text is the library's and is taken as
  given.
\<close>

record request =
  args :: "(string \<times> string) list"
  content_type :: "string option"
  json :: "jsonv option"

text \<open>
  \<^verbatim>\<open>request.json\<close> is Flask's, at the version the repository pins (3.1.0): it parses the
  body only when \<^verbatim>\<open>request.is_json\<close>, and raises otherwise; it also raises when the body
  does not parse. \<^verbatim>\<open>is_json\<close> looks at the mimetype, the content type up to its first
  \<^verbatim>\<open>;\<close>, stripped of white space and in lower case: it is \<^verbatim>\<open>application/json\<close>, or
  starts with \<^verbatim>\<open>application/\<close> and ends with \<^verbatim>\<open>+json\<close>. \<open>request_json\<close> is \<open>None\<close> when
  \<^verbatim>\<open>request.json\<close> raises. Lower case is taken on ASCII letters: no other 8-bit character
  becomes an ASCII one, so the comparisons are the same.
\<close>

definition is_space :: "char \<Rightarrow> bool" where
  "is_space c =
     (let n = (of_char c :: nat)
      in (9 \<le> n \<and> n \<le> 13) \<or> (28 \<le> n \<and> n \<le> 32) \<or> n = 133 \<or> n = 160)"

definition strip :: "string \<Rightarrow> string" where
  "strip s = rev (dropWhile is_space (rev (dropWhile is_space s)))"

definition lower_char :: "char \<Rightarrow> char" where
  "lower_char c =
     (let n = (of_char c :: nat) in if 65 \<le> n \<and> n \<le> 90 then char_of (n + 32) else c)"

definition lower :: "string \<Rightarrow> string" where
  "lower s = map lower_char s"

definition ends_with :: "string \<Rightarrow> string \<Rightarrow> bool" where
  "ends_with suffix s = starts_with (rev suffix) (rev s)"

definition mimetype_of :: "string \<Rightarrow> string" where
  "mimetype_of ct = lower (strip (takeWhile (\<lambda>c. c \<noteq> CHR '';'') ct))"

definition is_json :: "request \<Rightarrow> bool" where
  "is_json req =
     (let mt = mimetype_of (case content_type req of None \<Rightarrow> [] | Some ct \<Rightarrow> ct)
      in mt = ''application/json''
         \<or> (starts_with ''application/'' mt \<and> ends_with ''+json'' mt))"

definition request_json :: "request \<Rightarrow> jsonv option" where
  "request_json req = (if is_json req then json req else None)"

record response =
  status_code :: int
  body :: jsonv

text \<open>\<^verbatim>\<open>request.args.get(name)\<close>: the first value of that name, or \<^verbatim>\<open>None\<close>.\<close>

definition args_get :: "request \<Rightarrow> string \<Rightarrow> jsonv" where
  "args_get req name = (case map_of (args req) name of None \<Rightarrow> JNull | Some v \<Rightarrow> JStr v)"

definition jsonify :: "jsonv \<Rightarrow> response" where
  "jsonify v = \<lparr>status_code = 200, body = v\<rparr>"

text \<open>\<^verbatim>\<open>return resp, status\<close> and \<^verbatim>\<open>make_response(resp, status)\<close>.\<close>

definition make_response :: "response \<Rightarrow> int \<Rightarrow> response" where
  "make_response resp status = resp\<lparr>status_code := status\<rparr>"

subsection \<open>\<^verbatim>\<open>create_handler\<close>\<close>

text \<open>
  The loop that fills \<^verbatim>\<open>query_params\<close> (lines 221 to 225). \<^verbatim>\<open>param.get\<close> needs a dict,
  \<^verbatim>\<open>param["name"]\<close> raises \<^verbatim>\<open>KeyError\<close> when the name is missing, and a list or a dict
  cannot be a key.
\<close>

fun query_params_loop ::
  "jsonv list \<Rightarrow> request \<Rightarrow> (string \<times> jsonv) list \<Rightarrow> py_error + (string \<times> jsonv) list" where
  "query_params_loop [] req query_params = Inr query_params"
| "query_params_loop (param # rest) req query_params =
     (case param of
        JObj p \<Rightarrow>
          (if dict_get p ''in'' = Some (JStr ''query'') then
             (case dict_get p ''name'' of
                None \<Rightarrow> Inl KeyError
              | Some (JStr param_name) \<Rightarrow>
                  query_params_loop rest req
                    (dict_set param_name (args_get req param_name) query_params)
              | Some (JArr _) \<Rightarrow> Inl TypeError
              | Some (JObj _) \<Rightarrow> Inl TypeError
              | Some _ \<Rightarrow> Inl NonStringKey)
           else query_params_loop rest req query_params)
      | _ \<Rightarrow> Inl AttributeError)"

text \<open>
  Lines 221 to 225 as a whole: \<^verbatim>\<open>query_params = {}\<close>, then the loop over
  \<^verbatim>\<open>operation.get("parameters", [])\<close>.
\<close>

definition collect_query_params :: "jsonv \<Rightarrow> request \<Rightarrow> py_error + (string \<times> jsonv) list" where
  "collect_query_params operation req =
     (case py_get operation ''parameters'' (JArr []) of
        Inl err \<Rightarrow> Inl err
      | Inr parameters \<Rightarrow>
          (case py_iter parameters of
             Inl err \<Rightarrow> Inl err
           | Inr params \<Rightarrow> query_params_loop params req []))"

text \<open>
  \<^verbatim>\<open>create_handler(operation, example, method)\<close> returns the closure \<^verbatim>\<open>handler\<close>; applied to
  a request it is the handler's run. An exception that leaves the handler is \<open>Inl\<close>.
\<close>

definition create_handler :: "jsonv \<Rightarrow> jsonv \<Rightarrow> string \<Rightarrow> request \<Rightarrow> py_error + response" where
  "create_handler operation example method req =
     (case collect_query_params operation req of
        Inl err \<Rightarrow> Inl err
      | Inr query_params \<Rightarrow>
          (if upper method = ''POST'' then
             (if content_type req = Some ''application/json'' then
                (case request_json req of
                   None \<Rightarrow>
                     Inr (make_response (jsonify (JObj [(''error'', JStr ''Invalid request body'')])) 400)
                 | Some data \<Rightarrow>
                     (case data of
                        JObj d \<Rightarrow>
                          (case example of
                             JObj e \<Rightarrow> Inr (jsonify (JObj (dict_update (dict_update [] e) d)))
                           | _ \<Rightarrow> Inr (jsonify example))
                      | _ \<Rightarrow> Inr (jsonify example)))
              else Inr (make_response (jsonify (JObj [(''error'', JStr ''Unsupported Media Type'')])) 415))
           else if upper method = ''GET'' then
             (if query_params \<noteq> [] then
                (case example of
                   JObj e \<Rightarrow>
                     Inr (jsonify (JObj (dict_set ''query_params'' (JObj query_params) (dict_update [] e))))
                 | _ \<Rightarrow> Inl TypeError)
              else Inr (jsonify example))
           else if upper method = ''PUT'' then
             (case request_json req of
                None \<Rightarrow>
                  Inr (make_response (jsonify (JObj [(''error'', JStr ''Invalid request body'')])) 400)
              | Some data \<Rightarrow>
                  (case data of
                     JObj d \<Rightarrow>
                       (case example of
                          JObj e \<Rightarrow> Inr (jsonify (JObj (dict_update (dict_update [] e) d)))
                        | _ \<Rightarrow> Inr (jsonify example))
                   | _ \<Rightarrow> Inr (jsonify example)))
           else if upper method = ''DELETE'' then
             Inr (make_response (jsonify (JObj [(''message'', JStr ''Resource deleted'')])) 204)
           else
             Inr (make_response (jsonify (JObj [(''error'', JStr ''Method not supported'')])) 405)))"

subsection \<open>\<^verbatim>\<open>register_routes\<close>\<close>

text \<open>The choice of the example, lines 278 to 286 of \<^verbatim>\<open>register_routes\<close>.\<close>

definition resolve_example :: "jsonv \<Rightarrow> py_error + jsonv" where
  "resolve_example operation =
     (case py_get operation ''responses'' (JObj []) of
        Inl err \<Rightarrow> Inl err
      | Inr responses \<Rightarrow>
     (let default_resp = generate_default_response 200 ''application/json'' in
      (case py_in ''200'' responses of
         Inl err \<Rightarrow> Inl err
       | Inr False \<Rightarrow> Inr default_resp
       | Inr True \<Rightarrow>
      (case py_index responses ''200'' of
         Inl err \<Rightarrow> Inl err
       | Inr r200 \<Rightarrow>
      (case py_in ''content'' r200 of
         Inl err \<Rightarrow> Inl err
       | Inr False \<Rightarrow> Inr default_resp
       | Inr True \<Rightarrow>
      (case py_index r200 ''content'' of
         Inl err \<Rightarrow> Inl err
       | Inr content \<Rightarrow>
      (case py_get content ''application/json'' (JObj []) of
         Inl err \<Rightarrow> Inl err
       | Inr media \<Rightarrow> py_get media ''example'' default_resp)))))))"

text \<open>
  A rule of the router: the converted path, the endpoint name, the methods and the
  handler. The application keeps the rules in the order they were added, whether metering
  is on (\<^verbatim>\<open>self.meter\<close>), and the counter of dynamic routes.
\<close>

record route =
  rule :: string
  endpoint :: string
  methods :: "string list"
  view_func :: "request \<Rightarrow> py_error + response"

record app =
  url_map :: "route list"
  meter :: bool
  dynamic_routes_counter :: nat

text \<open>
  \<^verbatim>\<open>app.add_url_rule\<close> is Flask's. The model appends the rule; what Flask itself refuses
  (a malformed rule, an endpoint registered twice) is the parameter \<open>refuses\<close>.
\<close>

definition add_url_rule :: "(route list \<Rightarrow> route \<Rightarrow> bool) \<Rightarrow> route \<Rightarrow> app \<Rightarrow> py_error + app" where
  "add_url_rule refuses r a =
     (if refuses (url_map a) r then Inl RouterError else Inr (a\<lparr>url_map := url_map a @ [r]\<rparr>))"

text \<open>The inner loop, over \<^verbatim>\<open>methods.items()\<close>.\<close>

fun register_methods ::
  "(route list \<Rightarrow> route \<Rightarrow> bool) \<Rightarrow> string \<Rightarrow> (string \<times> jsonv) list \<Rightarrow> app \<Rightarrow> py_error + app" where
  "register_methods refuses flask_path [] a = Inr a"
| "register_methods refuses flask_path ((method, operation) # rest) a =
     (case resolve_example operation of
        Inl err \<Rightarrow> Inl err
      | Inr example \<Rightarrow>
          (case add_url_rule refuses
                  \<lparr>rule = flask_path, endpoint = flask_path @ ''_'' @ method,
                   methods = [upper method],
                   view_func = create_handler operation example method\<rparr>
                  (if meter a
                   then a\<lparr>dynamic_routes_counter := dynamic_routes_counter a + 1\<rparr>
                   else a) of
             Inl err \<Rightarrow> Inl err
           | Inr a' \<Rightarrow> register_methods refuses flask_path rest a'))"

text \<open>The outer loop, over \<^verbatim>\<open>paths.items()\<close>; \<^verbatim>\<open>methods.items()\<close> needs a dict.\<close>

fun register_paths ::
  "(route list \<Rightarrow> route \<Rightarrow> bool) \<Rightarrow> (string \<times> jsonv) list \<Rightarrow> app \<Rightarrow> py_error + app" where
  "register_paths refuses [] a = Inr a"
| "register_paths refuses ((openapi_path, path_methods) # rest) a =
     (case path_methods of
        JObj ms \<Rightarrow>
          (case register_methods refuses (convert_path openapi_path) ms a of
             Inl err \<Rightarrow> Inl err
           | Inr a' \<Rightarrow> register_paths refuses rest a')
      | _ \<Rightarrow> Inl AttributeError)"

text \<open>
  \<^verbatim>\<open>register_routes\<close> has no \<^verbatim>\<open>return\<close> statement: when it completes, the call's value is
  \<^verbatim>\<open>None\<close>, here \<open>JNull\<close>, next to the application as the loops left it.
\<close>

definition register_routes ::
  "(route list \<Rightarrow> route \<Rightarrow> bool) \<Rightarrow> app \<Rightarrow> jsonv \<Rightarrow> py_error + jsonv \<times> app" where
  "register_routes refuses a openapi_spec =
     (case py_get openapi_spec ''paths'' (JObj []) of
        Inl err \<Rightarrow> Inl err
      | Inr paths \<Rightarrow>
          (case paths of
             JObj ps \<Rightarrow>
               (case register_paths refuses ps a of
                  Inl err \<Rightarrow> Inl err
                | Inr a' \<Rightarrow> Inr (JNull, a'))
           | _ \<Rightarrow> Inl AttributeError))"

section \<open>The handler on a store of objects\<close>

text \<open>
  The closure \<^verbatim>\<open>handler\<close> holds references to \<^verbatim>\<open>operation\<close> and \<^verbatim>\<open>example\<close>, and Python
  dicts are mutable. To say what a run of the handler writes, the objects live in a store:
  an address is an index, a new object takes the next free address. The value at an
  address is the whole object, nested values included.
\<close>

type_synonym store = "jsonv list"

definition alloc :: "jsonv \<Rightarrow> store \<Rightarrow> nat \<times> store" where
  "alloc v h = (length h, h @ [v])"

text \<open>\<^verbatim>\<open>obj[k] = v\<close> on the object at address \<open>r\<close>: only a dict takes an item.\<close>

definition store_setitem :: "nat \<Rightarrow> string \<Rightarrow> jsonv \<Rightarrow> store \<Rightarrow> py_error + store" where
  "store_setitem r k v h =
     (case h ! r of
        JObj d \<Rightarrow> Inr (h[r := JObj (dict_set k v d)])
      | _ \<Rightarrow> Inl TypeError)"

text \<open>
  A dict display or literal builds a new object; \<^verbatim>\<open>jsonify\<close> serialises it into the
  response.
\<close>

definition respond_new :: "jsonv \<Rightarrow> int \<Rightarrow> store \<Rightarrow> (py_error + response) \<times> store" where
  "respond_new v status h =
     (case alloc v h of (r, h') \<Rightarrow> (Inr (make_response (jsonify (h' ! r)) status), h'))"

text \<open>
  The loop of lines 222 to 225, writing into the dict at address \<open>query_params\<close>. The
  result is the exception raised, if any, and the store.
\<close>

fun query_params_loop_st ::
  "jsonv list \<Rightarrow> request \<Rightarrow> nat \<Rightarrow> store \<Rightarrow> py_error option \<times> store" where
  "query_params_loop_st [] req query_params h = (None, h)"
| "query_params_loop_st (param # rest) req query_params h =
     (case param of
        JObj p \<Rightarrow>
          (if dict_get p ''in'' = Some (JStr ''query'') then
             (case dict_get p ''name'' of
                None \<Rightarrow> (Some KeyError, h)
              | Some (JStr param_name) \<Rightarrow>
                  (case store_setitem query_params param_name (args_get req param_name) h of
                     Inl err \<Rightarrow> (Some err, h)
                   | Inr h' \<Rightarrow> query_params_loop_st rest req query_params h')
              | Some (JArr _) \<Rightarrow> (Some TypeError, h)
              | Some (JObj _) \<Rightarrow> (Some TypeError, h)
              | Some _ \<Rightarrow> (Some NonStringKey, h))
           else query_params_loop_st rest req query_params h)
      | _ \<Rightarrow> (Some AttributeError, h))"

text \<open>
  The handler of \<^verbatim>\<open>create_handler\<close>, statement by statement, on the store: \<open>operation_ref\<close>
  and \<open>example_ref\<close> are the captured references, \<open>query_params\<close> is the address of the
  dict the loop filled. First the choice of the response, lines 227 to 253: the result is
  the response, or the exception, and the store the run leaves.
\<close>

definition respond_st ::
  "nat \<Rightarrow> string \<Rightarrow> request \<Rightarrow> nat \<Rightarrow> store \<Rightarrow> (py_error + response) \<times> store" where
  "respond_st example_ref method req query_params h2 =
     (if upper method = ''POST'' then
        (if content_type req = Some ''application/json'' then
           (case request_json req of
              None \<Rightarrow> respond_new (JObj [(''error'', JStr ''Invalid request body'')]) 400 h2
            | Some data \<Rightarrow>
                (case data of
                   JObj d \<Rightarrow>
                     (case h2 ! example_ref of
                        JObj e \<Rightarrow> respond_new (JObj (dict_update (dict_update [] e) d)) 200 h2
                      | _ \<Rightarrow> (Inr (jsonify (h2 ! example_ref)), h2))
                 | _ \<Rightarrow> (Inr (jsonify (h2 ! example_ref)), h2)))
         else respond_new (JObj [(''error'', JStr ''Unsupported Media Type'')]) 415 h2)
      else if upper method = ''GET'' then
        (if h2 ! query_params \<noteq> JObj [] then
           (case h2 ! example_ref of
              JObj e \<Rightarrow>
                respond_new
                  (JObj (dict_set ''query_params'' (h2 ! query_params) (dict_update [] e)))
                  200 h2
            | _ \<Rightarrow> (Inl TypeError, h2))
         else (Inr (jsonify (h2 ! example_ref)), h2))
      else if upper method = ''PUT'' then
        (case request_json req of
           None \<Rightarrow> respond_new (JObj [(''error'', JStr ''Invalid request body'')]) 400 h2
         | Some data \<Rightarrow>
             (case data of
                JObj d \<Rightarrow>
                  (case h2 ! example_ref of
                     JObj e \<Rightarrow> respond_new (JObj (dict_update (dict_update [] e) d)) 200 h2
                   | _ \<Rightarrow> (Inr (jsonify (h2 ! example_ref)), h2))
              | _ \<Rightarrow> (Inr (jsonify (h2 ! example_ref)), h2)))
      else if upper method = ''DELETE'' then
        respond_new (JObj [(''message'', JStr ''Resource deleted'')]) 204 h2
      else
        respond_new (JObj [(''error'', JStr ''Method not supported'')]) 405 h2)"

text \<open>The whole handler: \<^verbatim>\<open>query_params = {}\<close> is a new object, the loop fills it.\<close>

definition handler_st ::
  "nat \<Rightarrow> nat \<Rightarrow> string \<Rightarrow> request \<Rightarrow> store \<Rightarrow> (py_error + response) \<times> store" where
  "handler_st operation_ref example_ref method req h =
     (case alloc (JObj []) h of
        (query_params, h1) \<Rightarrow>
     (case py_get (h1 ! operation_ref) ''parameters'' (JArr []) of
        Inl err \<Rightarrow> (Inl err, h1)
      | Inr parameters \<Rightarrow>
     (case py_iter parameters of
        Inl err \<Rightarrow> (Inl err, h1)
      | Inr params \<Rightarrow>
     (case query_params_loop_st params req query_params h1 of
        (Some err, h2) \<Rightarrow> (Inl err, h2)
      | (None, h2) \<Rightarrow> respond_st example_ref method req query_params h2))))"

text \<open>
  The requests a handler serves, one after the other, each on the store the one before
  left. An exception ends its request only.
\<close>

fun serve ::
  "nat \<Rightarrow> nat \<Rightarrow> string \<Rightarrow> request list \<Rightarrow> store \<Rightarrow> (py_error + response) list \<times> store" where
  "serve operation_ref example_ref method [] h = ([], h)"
| "serve operation_ref example_ref method (req # reqs) h =
     (case handler_st operation_ref example_ref method req h of
        (r, h') \<Rightarrow>
          (case serve operation_ref example_ref method reqs h' of
             (rs, h'') \<Rightarrow> (r # rs, h'')))"

section \<open>The specification's data model\<close>

text \<open>\<^verbatim>\<open>isinstance(x, dict)\<close>, the specification's "key-value object".\<close>

definition is_dict :: "jsonv \<Rightarrow> bool" where
  "is_dict x = (case x of JObj d \<Rightarrow> True | _ \<Rightarrow> False)"

text \<open>
  A Parameter descriptor is an object; one whose location (\<^verbatim>\<open>in\<close>) is \<^verbatim>\<open>query\<close> has a
  name, a string. \<open>query_name\<close> is that name.
\<close>

definition query_name :: "jsonv \<Rightarrow> string option" where
  "query_name p =
     (case p of
        JObj d \<Rightarrow>
          (if dict_get d ''in'' = Some (JStr ''query'')
           then (case dict_get d ''name'' of Some (JStr n) \<Rightarrow> Some n | _ \<Rightarrow> None)
           else None)
      | _ \<Rightarrow> None)"

definition parameter_ok :: "jsonv \<Rightarrow> bool" where
  "parameter_ok p =
     (case p of
        JObj d \<Rightarrow>
          (if dict_get d ''in'' = Some (JStr ''query'')
           then (case dict_get d ''name'' of Some (JStr n) \<Rightarrow> True | _ \<Rightarrow> False)
           else True)
      | _ \<Rightarrow> False)"

text \<open>
  An Operation is an object whose \<^verbatim>\<open>parameters\<close>, when it has any, is a sequence of
  Parameter descriptors.
\<close>

definition declared_parameters :: "jsonv \<Rightarrow> jsonv list" where
  "declared_parameters operation =
     (case operation of
        JObj op \<Rightarrow> (case dict_get op ''parameters'' of Some (JArr ps) \<Rightarrow> ps | _ \<Rightarrow> [])
      | _ \<Rightarrow> [])"

definition operation_ok :: "jsonv \<Rightarrow> bool" where
  "operation_ok operation =
     (case operation of
        JObj op \<Rightarrow>
          (case dict_get op ''parameters'' of
             None \<Rightarrow> True
           | Some (JArr ps) \<Rightarrow> list_all parameter_ok ps
           | Some _ \<Rightarrow> False)
      | _ \<Rightarrow> False)"

text \<open>The names of the declared parameters whose location is \<^verbatim>\<open>query\<close>, in order.\<close>

definition declared_query_names :: "jsonv \<Rightarrow> string list" where
  "declared_query_names operation = List.map_filter query_name (declared_parameters operation)"

text \<open>
  The example an operation declares: the \<^verbatim>\<open>example\<close> field of the \<^verbatim>\<open>application/json\<close>
  entry of the \<^verbatim>\<open>content\<close> of its response for status \<^verbatim>\<open>"200"\<close>, each of them an
  object.
\<close>

definition declared_example :: "jsonv \<Rightarrow> jsonv option" where
  "declared_example operation =
     (case operation of
        JObj op \<Rightarrow>
          (case dict_get op ''responses'' of
             Some (JObj rs) \<Rightarrow>
               (case dict_get rs ''200'' of
                  Some (JObj r) \<Rightarrow>
                    (case dict_get r ''content'' of
                       Some (JObj c) \<Rightarrow>
                         (case dict_get c ''application/json'' of
                            Some (JObj m) \<Rightarrow> dict_get m ''example''
                          | _ \<Rightarrow> None)
                     | _ \<Rightarrow> None)
                | _ \<Rightarrow> None)
           | _ \<Rightarrow> None)
      | _ \<Rightarrow> None)"

text \<open>
  The shape of an Operation's responses in the data model: \<^verbatim>\<open>responses\<close>, its entry
  \<^verbatim>\<open>"200"\<close>, that entry's \<^verbatim>\<open>content\<close> and the content's \<^verbatim>\<open>application/json\<close> entry are
  objects, each when present.
\<close>

definition responses_ok :: "jsonv \<Rightarrow> bool" where
  "responses_ok operation =
     (case operation of
        JObj op \<Rightarrow>
          (case dict_get op ''responses'' of
             None \<Rightarrow> True
           | Some (JObj rs) \<Rightarrow>
               (case dict_get rs ''200'' of
                  None \<Rightarrow> True
                | Some (JObj r) \<Rightarrow>
                    (case dict_get r ''content'' of
                       None \<Rightarrow> True
                     | Some (JObj c) \<Rightarrow>
                         (case dict_get c ''application/json'' of
                            None \<Rightarrow> True
                          | Some (JObj m) \<Rightarrow> True
                          | Some _ \<Rightarrow> False)
                     | Some _ \<Rightarrow> False)
                | Some _ \<Rightarrow> False)
           | Some _ \<Rightarrow> False)
      | _ \<Rightarrow> False)"

text \<open>
  The (path, method) pairs of a specification's \<^verbatim>\<open>paths\<close> mapping, in order, and their
  number.
\<close>

definition path_operations :: "jsonv \<Rightarrow> (string \<times> string) list" where
  "path_operations openapi_spec =
     (case openapi_spec of
        JObj s \<Rightarrow>
          (case dict_get s ''paths'' of
             Some (JObj ps) \<Rightarrow>
               concat (map (\<lambda>(path, ms).
                              case ms of
                                JObj m \<Rightarrow> map (\<lambda>(method, operation). (path, method)) m
                              | _ \<Rightarrow> []) ps)
           | _ \<Rightarrow> [])
      | _ \<Rightarrow> [])"

definition count_operations :: "jsonv \<Rightarrow> nat" where
  "count_operations openapi_spec = length (path_operations openapi_spec)"

section \<open>Sample values\<close>

text \<open>The operations, example and requests of the repository's tests.\<close>

definition get_operation :: jsonv where
  "get_operation =
     JObj [(''parameters'', JArr [JObj [(''name'', JStr ''param1''), (''in'', JStr ''query'')]]),
           (''responses'', JObj [(''200'', JObj [(''content'',
              JObj [(''application/json'', JObj [(''example'', JObj [(''message'', JStr ''test'')])])])])])]"

definition post_operation :: jsonv where
  "post_operation =
     JObj [(''responses'', JObj [(''200'', JObj [(''content'',
              JObj [(''application/json'', JObj [(''example'', JObj [(''message'', JStr ''test'')])])])])])]"

definition test_example :: jsonv where
  "test_example = JObj [(''message'', JStr ''test'')]"

definition get_request :: request where
  "get_request = \<lparr>args = [(''param1'', ''value1'')], content_type = None, json = None\<rparr>"

definition post_request :: request where
  "post_request =
     \<lparr>args = [], content_type = Some ''application/json'',
      json = Some (JObj [(''key'', JStr ''value'')])\<rparr>"

definition empty_request :: request where
  "empty_request = \<lparr>args = [], content_type = None, json = None\<rparr>"

text \<open>The specification of \<^verbatim>\<open>test_load_and_register_routes\<close>, a fresh application, and a
  router that refuses nothing.\<close>

definition test_spec :: jsonv where
  "test_spec = JObj [(''paths'', JObj [(''/test'', JObj [(''get'', post_operation)])])]"

definition fresh_app :: app where
  "fresh_app = \<lparr>url_map = [], meter = True, dynamic_routes_counter = 0\<rparr>"

definition refuses_nothing :: "route list \<Rightarrow> route \<Rightarrow> bool" where
  "refuses_nothing rs r = False"

section \<open>Path conversion\<close>

lemma str_replace_single:
  "str_replace [a] [b] s = map (\<lambda>c. if c = a then b else c) s"
  by (induction s) auto

text \<open>
  C5. For every string, path conversion gives the string of the same characters in the
  same order, each \<open>{\<close> turned into \<open><\<close>, each \<open>}\<close> into \<open>>\<close> and every other character
  kept; \<^verbatim>\<open>/users/{id}/posts/{pid}\<close> becomes \<^verbatim>\<open>/users/<id>/posts/<pid>\<close>.
\<close>

theorem convert_path_braces:
  "convert_path s = map brace_to_angle s
   \<and> convert_path ''/users/{id}/posts/{pid}'' = ''/users/<id>/posts/<pid>''"
proof -
  have "convert_path t = map brace_to_angle t" for t
    by (simp add: convert_path_def str_replace_single brace_to_angle_def)
  then show ?thesis
    by (simp add: brace_to_angle_def)
qed

section \<open>Dictionaries and the parameter loop\<close>

lemma dict_get_dict_set:
  "dict_get (dict_set k v d) k' = (if k' = k then Some v else dict_get d k')"
  by (induction d) (auto simp: dict_get_def)

lemma keys_dict_set:
  "map fst (dict_set k v d) = (if map_of d k = None then map fst d @ [k] else map fst d)"
  by (induction d) auto

lemma distinct_dict_set: "distinct (map fst d) \<Longrightarrow> distinct (map fst (dict_set k v d))"
  by (simp add: keys_dict_set map_of_eq_None_iff)

lemma dict_set_not_Nil: "dict_set k v d \<noteq> []"
  by (cases d) (auto split: if_splits)

text \<open>
  On well-formed parameters the loop completes, and \<^verbatim>\<open>query_params\<close> then maps exactly the
  declared query names, each to the request's value.
\<close>

lemma query_params_loop_ok:
  "list_all parameter_ok ps \<Longrightarrow>
   \<exists>qp'. query_params_loop ps req qp = Inr qp'
     \<and> (\<forall>n. dict_get qp' n =
           (if n \<in> set (List.map_filter query_name ps) then Some (args_get req n) else dict_get qp n))
     \<and> (distinct (map fst qp) \<longrightarrow> distinct (map fst qp'))
     \<and> (qp' = [] \<longleftrightarrow> qp = [] \<and> List.map_filter query_name ps = [])"
proof (induction ps arbitrary: qp)
  case Nil
  then show ?case by simp
next
  case (Cons p ps)
  from Cons.prems have pok: "parameter_ok p" and rest: "list_all parameter_ok ps" by simp_all
  from pok obtain d where p: "p = JObj d"
    by (cases p) (simp_all add: parameter_ok_def)
  show ?case
  proof (cases "dict_get d ''in'' = Some (JStr ''query'')")
    case False
    then have qn: "query_name p = None" by (simp add: query_name_def p)
    from Cons.IH[OF rest, of qp] False qn show ?thesis
      by (simp add: p)
  next
    case True
    with pok p obtain n where n: "dict_get d ''name'' = Some (JStr n)"
      by (auto simp: parameter_ok_def split: option.splits jsonv.splits)
    have qn: "query_name p = Some n" by (simp add: query_name_def p True n)
    from Cons.IH[OF rest, of "dict_set n (args_get req n) qp"]
    obtain qp' where
      1: "query_params_loop ps req (dict_set n (args_get req n) qp) = Inr qp'" and
      2: "\<forall>k. dict_get qp' k =
           (if k \<in> set (List.map_filter query_name ps) then Some (args_get req k)
            else dict_get (dict_set n (args_get req n) qp) k)" and
      3: "distinct (map fst (dict_set n (args_get req n) qp)) \<longrightarrow> distinct (map fst qp')" and
      4: "qp' = [] \<longleftrightarrow> dict_set n (args_get req n) qp = [] \<and> List.map_filter query_name ps = []"
      by blast
    have "query_params_loop (p # ps) req qp = Inr qp'"
      by (simp add: p True n 1)
    moreover have "\<forall>k. dict_get qp' k =
           (if k \<in> set (List.map_filter query_name (p # ps)) then Some (args_get req k)
            else dict_get qp k)"
      using 2 by (simp add: qn dict_get_dict_set)
    moreover have "distinct (map fst qp) \<longrightarrow> distinct (map fst qp')"
      using 3 by (simp add: distinct_dict_set)
    moreover have "qp' = [] \<longleftrightarrow> qp = [] \<and> List.map_filter query_name (p # ps) = []"
      using 4 by (simp add: dict_set_not_Nil qn)
    ultimately show ?thesis by blast
  qed
qed

lemma dict_get_Nil: "dict_get [] k = None"
  by (simp add: dict_get_def)

lemma collect_query_params_ok:
  assumes "operation_ok operation"
  shows "\<exists>qp. collect_query_params operation req = Inr qp
     \<and> (\<forall>n. dict_get qp n =
           (if n \<in> set (declared_query_names operation) then Some (args_get req n) else None))
     \<and> distinct (map fst qp)
     \<and> (qp = [] \<longleftrightarrow> declared_query_names operation = [])"
proof -
  from assms obtain op where op: "operation = JObj op"
    by (cases operation) (simp_all add: operation_ok_def)
  show ?thesis
  proof (cases "dict_get op ''parameters''")
    case None
    then show ?thesis
      by (simp add: op collect_query_params_def py_get_def py_iter_def declared_query_names_def
          declared_parameters_def dict_get_Nil)
  next
    case (Some x)
    with assms op obtain ps where x: "x = JArr ps" and ok: "list_all parameter_ok ps"
      by (cases x) (simp_all add: operation_ok_def)
    from query_params_loop_ok[OF ok, of req "[]"] show ?thesis
      by (auto simp: op Some x collect_query_params_def py_get_def py_iter_def
          declared_query_names_def declared_parameters_def dict_get_Nil)
  qed
qed

lemma dict_get_dict_update:
  "distinct (map fst items) \<Longrightarrow>
   dict_get (dict_update d items) k =
     (case map_of items k of Some v \<Rightarrow> Some v | None \<Rightarrow> dict_get d k)"
proof (induction items arbitrary: d)
  case Nil
  then show ?case by (simp add: dict_update_def)
next
  case (Cons a items)
  obtain k' v' where a: "a = (k', v')" by (cases a)
  from Cons.prems a have d: "distinct (map fst items)" and nk: "map_of items k' = None"
    by (auto simp: map_of_eq_None_iff)
  have "dict_update d (a # items) = dict_update (dict_set k' v' d) items"
    by (simp add: dict_update_def a)
  with Cons.IH[OF d, of "dict_set k' v' d"] nk show ?case
    by (auto simp: a dict_get_dict_set split: option.splits)
qed

lemma distinct_dict_update:
  "distinct (map fst d) \<Longrightarrow> distinct (map fst (dict_update d items))"
proof (induction items arbitrary: d)
  case Nil
  then show ?case by (simp add: dict_update_def)
next
  case (Cons a items)
  obtain k' v' where a: "a = (k', v')" by (cases a)
  have "dict_update d (a # items) = dict_update (dict_set k' v' d) items"
    by (simp add: dict_update_def a)
  with Cons.IH[of "dict_set k' v' d"] Cons.prems show ?case
    by (simp add: distinct_dict_set)
qed

text \<open>The dict display \<^verbatim>\<open>{**example, **data}\<close>.\<close>

lemma merge_display:
  assumes "distinct (map fst e)" and "distinct (map fst d)"
  shows "map_of (dict_update (dict_update [] e) d) = map_of e ++ map_of d"
    and "distinct (map fst (dict_update (dict_update [] e) d))"
proof -
  have "map_of (dict_update (dict_update [] e) d) k = (map_of e ++ map_of d) k" for k
    using dict_get_dict_update[OF assms(2), of "dict_update [] e" k]
      dict_get_dict_update[OF assms(1), of "[]" k]
    by (simp add: dict_get_def map_add_def split: option.splits)
  then show "map_of (dict_update (dict_update [] e) d) = map_of e ++ map_of d"
    by (rule ext)
  show "distinct (map fst (dict_update (dict_update [] e) d))"
    by (simp add: distinct_dict_update)
qed

text \<open>The dict display \<^verbatim>\<open>{**example, "query_params": query_params}\<close>.\<close>

lemma query_display:
  assumes "distinct (map fst e)"
  shows "map_of (dict_set k v (dict_update [] e)) = (map_of e)(k \<mapsto> v)"
    and "distinct (map fst (dict_set k v (dict_update [] e)))"
proof -
  have "map_of (dict_set k v (dict_update [] e)) k' = ((map_of e)(k \<mapsto> v)) k'" for k'
    using dict_get_dict_set[of k v "dict_update [] e" k']
      dict_get_dict_update[OF assms, of "[]" k']
    by (simp add: dict_get_def split: option.splits)
  then show "map_of (dict_set k v (dict_update [] e)) = (map_of e)(k \<mapsto> v)"
    by (rule ext)
  show "distinct (map fst (dict_set k v (dict_update [] e)))"
    by (simp add: distinct_dict_update distinct_dict_set)
qed

section \<open>Reading the body\<close>

lemma mimetype_application_json: "mimetype_of ''application/json'' = ''application/json''"
  by code_simp

lemma mimetype_text_plain: "mimetype_of ''text/plain'' = ''text/plain''"
  by code_simp

lemma mimetype_empty: "mimetype_of [] = []"
  by (simp add: mimetype_of_def strip_def lower_def)

text \<open>With the content type POST asks for, \<^verbatim>\<open>request.json\<close> is the parse of the body.\<close>

lemma request_json_exact:
  "content_type req = Some ''application/json'' \<Longrightarrow> request_json req = json req"
  by (simp add: request_json_def is_json_def mimetype_application_json)

lemma is_json_samples:
  "is_json post_request" "\<not> is_json empty_request"
  "\<not> is_json (post_request\<lparr>content_type := Some ''text/plain''\<rparr>)"
  by (simp_all add: is_json_def post_request_def empty_request_def mimetype_application_json
      mimetype_text_plain mimetype_empty ends_with_def)

section \<open>Facts about the sample values\<close>

lemma upper_delete: "upper ''delete'' = ''DELETE''" by code_simp

lemma upper_get: "upper ''get'' = ''GET''" by code_simp

lemma upper_post: "upper ''post'' = ''POST''" by code_simp

lemma upper_put: "upper ''put'' = ''PUT''" by code_simp

lemma upper_patch: "upper ''patch'' = ''PATCH''" by code_simp

lemma operation_ok_samples: "operation_ok get_operation" "operation_ok post_operation"
  by (simp_all add: operation_ok_def get_operation_def post_operation_def dict_get_def
      parameter_ok_def)

lemma get_operation_names: "declared_query_names get_operation = [''param1'']"
  by (simp add: declared_query_names_def declared_parameters_def get_operation_def dict_get_def
      query_name_def)

section \<open>The handlers, method by method\<close>

text \<open>
  The loop over the parameters runs before the method is looked at, so outside the data
  model a handler of any method can raise: here a query parameter has no name.
\<close>

lemma nameless_query_parameter:
  "create_handler (JObj [(''parameters'', JArr [JObj [(''in'', JStr ''query'')]])])
     example ''DELETE'' req = Inl KeyError"
  by (simp add: create_handler_def collect_query_params_def py_get_def py_iter_def dict_get_def)

text \<open>
  C7. A handler built with method DELETE (in any letter case) for an operation of the data
  model answers every request, whatever it holds, with status 204 and the body
  \<^verbatim>\<open>{"message": "Resource deleted"}\<close>.
\<close>

theorem delete_handler:
  assumes "operation_ok operation" and "upper method = ''DELETE''"
  shows "create_handler operation example method req =
           Inr \<lparr>status_code = 204, body = JObj [(''message'', JStr ''Resource deleted'')]\<rparr>"
proof -
  from collect_query_params_ok[OF assms(1), of req]
  obtain qp where "collect_query_params operation req = Inr qp" by blast
  then show ?thesis
    by (simp add: create_handler_def assms(2) jsonify_def make_response_def)
qed

theorem delete_handler_witness:
  "operation_ok post_operation \<and> upper ''delete'' = ''DELETE''
   \<and> create_handler post_operation test_example ''delete'' post_request =
       Inr \<lparr>status_code = 204, body = JObj [(''message'', JStr ''Resource deleted'')]\<rparr>"
  using delete_handler[OF operation_ok_samples(2) upper_delete, of test_example post_request]
    operation_ok_samples(2) upper_delete
  by simp

text \<open>
  C8. A handler built with a method that is none of GET, POST, PUT and DELETE, compared
  after upper-casing, answers every request with status 405 and the body
  \<^verbatim>\<open>{"error": "Method not supported"}\<close>.
\<close>

theorem other_method_handler:
  assumes "operation_ok operation"
    and "upper method \<noteq> ''GET''" and "upper method \<noteq> ''POST''"
    and "upper method \<noteq> ''PUT''" and "upper method \<noteq> ''DELETE''"
  shows "create_handler operation example method req =
           Inr \<lparr>status_code = 405, body = JObj [(''error'', JStr ''Method not supported'')]\<rparr>"
proof -
  from collect_query_params_ok[OF assms(1), of req]
  obtain qp where "collect_query_params operation req = Inr qp" by blast
  then show ?thesis
    using assms(2-5) by (simp add: create_handler_def jsonify_def make_response_def)
qed

theorem other_method_handler_witness:
  "operation_ok post_operation
   \<and> upper ''patch'' \<noteq> ''GET'' \<and> upper ''patch'' \<noteq> ''POST''
   \<and> upper ''patch'' \<noteq> ''PUT'' \<and> upper ''patch'' \<noteq> ''DELETE''
   \<and> create_handler post_operation test_example ''patch'' empty_request =
       Inr \<lparr>status_code = 405, body = JObj [(''error'', JStr ''Method not supported'')]\<rparr>"
proof -
  have m: "upper ''patch'' \<noteq> ''GET''" "upper ''patch'' \<noteq> ''POST''"
    "upper ''patch'' \<noteq> ''PUT''" "upper ''patch'' \<noteq> ''DELETE''"
    by (simp_all add: upper_patch)
  from other_method_handler[OF operation_ok_samples(2) m, of test_example empty_request]
    operation_ok_samples(2) m
  show ?thesis by simp
qed

text \<open>
  C2. A handler built with method POST: when the content type is not exactly
  \<^verbatim>\<open>application/json\<close> it answers 415 with \<^verbatim>\<open>{"error": "Unsupported Media Type"}\<close>, whatever
  reading the body would give (\<open>j\<close>); when it is and the body does not parse, 400 with
  \<^verbatim>\<open>{"error": "Invalid request body"}\<close>; when the body parses and both the body and the
  example are dicts, 200 with their shallow merge, the body's keys first in precedence;
  when one of them is not a dict, 200 with the example unchanged.
\<close>

theorem post_handler:
  assumes "operation_ok operation" and "upper method = ''POST''"
  shows
   "(content_type req \<noteq> Some ''application/json'' \<longrightarrow>
       create_handler operation example method (req\<lparr>json := j\<rparr>) =
         Inr \<lparr>status_code = 415, body = JObj [(''error'', JStr ''Unsupported Media Type'')]\<rparr>)
    \<and> (content_type req = Some ''application/json'' \<and> json req = None \<longrightarrow>
       create_handler operation example method req =
         Inr \<lparr>status_code = 400, body = JObj [(''error'', JStr ''Invalid request body'')]\<rparr>)
    \<and> (content_type req = Some ''application/json'' \<and> json req = Some (JObj d)
         \<and> example = JObj e \<and> distinct (map fst d) \<and> distinct (map fst e) \<longrightarrow>
       (\<exists>b. create_handler operation example method req = Inr \<lparr>status_code = 200, body = JObj b\<rparr>
          \<and> map_of b = map_of e ++ map_of d \<and> distinct (map fst b)))
    \<and> (content_type req = Some ''application/json'' \<and> json req = Some data
         \<and> \<not> (is_dict data \<and> is_dict example) \<longrightarrow>
       create_handler operation example method req = Inr \<lparr>status_code = 200, body = example\<rparr>)"
proof -
  from collect_query_params_ok[OF assms(1), of "req\<lparr>json := j\<rparr>"]
  obtain qp' where qp': "collect_query_params operation (req\<lparr>json := j\<rparr>) = Inr qp'" by blast
  from collect_query_params_ok[OF assms(1), of req]
  obtain qp where qp: "collect_query_params operation req = Inr qp" by blast
  have 1: "content_type req \<noteq> Some ''application/json'' \<Longrightarrow>
       create_handler operation example method (req\<lparr>json := j\<rparr>) =
         Inr \<lparr>status_code = 415, body = JObj [(''error'', JStr ''Unsupported Media Type'')]\<rparr>"
    by (simp add: create_handler_def qp' assms(2) jsonify_def make_response_def)
  have 2: "content_type req = Some ''application/json'' \<Longrightarrow> json req = None \<Longrightarrow>
       create_handler operation example method req =
         Inr \<lparr>status_code = 400, body = JObj [(''error'', JStr ''Invalid request body'')]\<rparr>"
    by (simp add: create_handler_def qp assms(2) jsonify_def make_response_def request_json_exact)
  have 3: "content_type req = Some ''application/json'' \<Longrightarrow> json req = Some (JObj d)
         \<Longrightarrow> example = JObj e \<Longrightarrow> distinct (map fst d) \<Longrightarrow> distinct (map fst e) \<Longrightarrow>
       (\<exists>b. create_handler operation example method req = Inr \<lparr>status_code = 200, body = JObj b\<rparr>
          \<and> map_of b = map_of e ++ map_of d \<and> distinct (map fst b))"
    by (simp add: create_handler_def qp assms(2) jsonify_def merge_display request_json_exact)
  have 4: "content_type req = Some ''application/json'' \<Longrightarrow> json req = Some data
         \<Longrightarrow> \<not> (is_dict data \<and> is_dict example) \<Longrightarrow>
       create_handler operation example method req = Inr \<lparr>status_code = 200, body = example\<rparr>"
    by (simp add: create_handler_def qp assms(2) jsonify_def is_dict_def request_json_exact
        split: jsonv.splits)
  from 1 2 3 4 show ?thesis by blast
qed

theorem post_handler_witness:
  "operation_ok post_operation \<and> upper ''post'' = ''POST''
   \<and> content_type empty_request \<noteq> Some ''application/json''
   \<and> create_handler post_operation test_example ''post''
         (empty_request\<lparr>json := None\<rparr>) =
       Inr \<lparr>status_code = 415, body = JObj [(''error'', JStr ''Unsupported Media Type'')]\<rparr>
   \<and> content_type (post_request\<lparr>json := None\<rparr>) = Some ''application/json''
   \<and> json (post_request\<lparr>json := None\<rparr>) = None
   \<and> create_handler post_operation test_example ''post'' (post_request\<lparr>json := None\<rparr>) =
       Inr \<lparr>status_code = 400, body = JObj [(''error'', JStr ''Invalid request body'')]\<rparr>
   \<and> content_type post_request = Some ''application/json''
   \<and> json post_request = Some (JObj [(''key'', JStr ''value'')])
   \<and> test_example = JObj [(''message'', JStr ''test'')]
   \<and> distinct (map fst [(''key'', JStr ''value'')])
   \<and> distinct (map fst [(''message'', JStr ''test'')])
   \<and> (\<exists>b. create_handler post_operation test_example ''post'' post_request =
              Inr \<lparr>status_code = 200, body = JObj b\<rparr>
          \<and> map_of b = map_of [(''message'', JStr ''test'')] ++ map_of [(''key'', JStr ''value'')]
          \<and> distinct (map fst b))
   \<and> json (post_request\<lparr>json := Some (JArr [])\<rparr>) = Some (JArr [])
   \<and> \<not> (is_dict (JArr []) \<and> is_dict test_example)
   \<and> create_handler post_operation test_example ''post'' (post_request\<lparr>json := Some (JArr [])\<rparr>) =
       Inr \<lparr>status_code = 200, body = test_example\<rparr>"
proof -
  note th = post_handler[OF operation_ok_samples(2) upper_post]
  have c1: "content_type empty_request \<noteq> Some ''application/json''"
    by (simp add: empty_request_def)
  have c2: "content_type (post_request\<lparr>json := None\<rparr>) = Some ''application/json''"
    "json (post_request\<lparr>json := None\<rparr>) = None"
    by (simp_all add: post_request_def)
  have c3: "content_type post_request = Some ''application/json''"
    "json post_request = Some (JObj [(''key'', JStr ''value'')])"
    "test_example = JObj [(''message'', JStr ''test'')]"
    "distinct (map fst [(''key'', JStr ''value'')])"
    "distinct (map fst [(''message'', JStr ''test'')])"
    by (simp_all add: post_request_def test_example_def)
  have c4: "content_type (post_request\<lparr>json := Some (JArr [])\<rparr>) = Some ''application/json''"
    "json (post_request\<lparr>json := Some (JArr [])\<rparr>) = Some (JArr [])"
    "\<not> (is_dict (JArr []) \<and> is_dict test_example)"
    by (simp_all add: post_request_def is_dict_def)
  from th[of empty_request test_example None] c1
  have r1: "create_handler post_operation test_example ''post''
         (empty_request\<lparr>json := None\<rparr>) =
       Inr \<lparr>status_code = 415, body = JObj [(''error'', JStr ''Unsupported Media Type'')]\<rparr>"
    by blast
  from th[of "post_request\<lparr>json := None\<rparr>" test_example] c2
  have r2: "create_handler post_operation test_example ''post'' (post_request\<lparr>json := None\<rparr>) =
       Inr \<lparr>status_code = 400, body = JObj [(''error'', JStr ''Invalid request body'')]\<rparr>"
    by blast
  from th[of post_request test_example _ "[(''key'', JStr ''value'')]" "[(''message'', JStr ''test'')]"] c3
  have r3: "\<exists>b. create_handler post_operation test_example ''post'' post_request =
              Inr \<lparr>status_code = 200, body = JObj b\<rparr>
          \<and> map_of b = map_of [(''message'', JStr ''test'')] ++ map_of [(''key'', JStr ''value'')]
          \<and> distinct (map fst b)"
    by blast
  from th[of "post_request\<lparr>json := Some (JArr [])\<rparr>" test_example _ _ _ "JArr []"] c4
  have r4: "create_handler post_operation test_example ''post'' (post_request\<lparr>json := Some (JArr [])\<rparr>) =
       Inr \<lparr>status_code = 200, body = test_example\<rparr>"
    by blast
  from operation_ok_samples(2) upper_post c1 r1 c2 r2 c3 r3 c4(2,3) r4 show ?thesis
    by blast
qed

lemma post_handler_test:
  "create_handler post_operation test_example ''post'' post_request =
     Inr \<lparr>status_code = 200, body = JObj [(''message'', JStr ''test''), (''key'', JStr ''value'')]\<rparr>"
  by (simp add: create_handler_def collect_query_params_def py_get_def py_iter_def post_operation_def
      dict_get_def upper_post test_example_def jsonify_def dict_update_def
      request_json_exact[of post_request])
     (simp add: post_request_def dict_update_def jsonify_def)

text \<open>
  C3, as amended. A handler built with method PUT reads \<^verbatim>\<open>request.json\<close> without looking
  at the content type itself. When that read raises, because the content type is not a
  JSON media type or because the body does not parse, it answers 400 with
  \<^verbatim>\<open>{"error": "Invalid request body"}\<close>. When the content type is a JSON media type and the
  body and the example are both dicts, it answers 200 with the merge in which the body's
  keys take precedence; when the body parses and one of the two is not a dict, 200 with
  the example unchanged.
\<close>

theorem put_handler:
  assumes "operation_ok operation" and "upper method = ''PUT''"
  shows
   "(\<not> is_json req \<or> json req = None \<longrightarrow>
       create_handler operation example method req =
         Inr \<lparr>status_code = 400, body = JObj [(''error'', JStr ''Invalid request body'')]\<rparr>)
    \<and> (is_json req \<and> json req = Some (JObj d) \<and> example = JObj e
         \<and> distinct (map fst d) \<and> distinct (map fst e) \<longrightarrow>
       (\<exists>b. create_handler operation example method req =
              Inr \<lparr>status_code = 200, body = JObj b\<rparr>
          \<and> map_of b = map_of e ++ map_of d \<and> distinct (map fst b)))
    \<and> (is_json req \<and> json req = Some data \<and> \<not> (is_dict data \<and> is_dict example) \<longrightarrow>
       create_handler operation example method req =
         Inr \<lparr>status_code = 200, body = example\<rparr>)"
proof -
  from collect_query_params_ok[OF assms(1), of req]
  obtain qp where qp: "collect_query_params operation req = Inr qp"
    by blast
  have 1: "\<not> is_json req \<or> json req = None \<Longrightarrow>
       create_handler operation example method req =
         Inr \<lparr>status_code = 400, body = JObj [(''error'', JStr ''Invalid request body'')]\<rparr>"
    by (auto simp: create_handler_def qp assms(2) jsonify_def make_response_def request_json_def)
  have 2: "is_json req \<Longrightarrow> json req = Some (JObj d) \<Longrightarrow> example = JObj e
         \<Longrightarrow> distinct (map fst d) \<Longrightarrow> distinct (map fst e) \<Longrightarrow>
       (\<exists>b. create_handler operation example method req =
              Inr \<lparr>status_code = 200, body = JObj b\<rparr>
          \<and> map_of b = map_of e ++ map_of d \<and> distinct (map fst b))"
    by (simp add: create_handler_def qp assms(2) jsonify_def merge_display request_json_def)
  have 3: "is_json req \<Longrightarrow> json req = Some data \<Longrightarrow> \<not> (is_dict data \<and> is_dict example) \<Longrightarrow>
       create_handler operation example method req =
         Inr \<lparr>status_code = 200, body = example\<rparr>"
    by (simp add: create_handler_def qp assms(2) jsonify_def is_dict_def request_json_def
        split: jsonv.splits)
  from 1 2 3 show ?thesis by blast
qed

theorem put_handler_witness:
  "operation_ok post_operation \<and> upper ''put'' = ''PUT''
   \<and> \<not> is_json empty_request
   \<and> create_handler post_operation test_example ''put'' empty_request =
       Inr \<lparr>status_code = 400, body = JObj [(''error'', JStr ''Invalid request body'')]\<rparr>
   \<and> json (post_request\<lparr>json := None\<rparr>) = None
   \<and> create_handler post_operation test_example ''put'' (post_request\<lparr>json := None\<rparr>) =
       Inr \<lparr>status_code = 400, body = JObj [(''error'', JStr ''Invalid request body'')]\<rparr>
   \<and> is_json post_request
   \<and> json post_request = Some (JObj [(''key'', JStr ''value'')])
   \<and> test_example = JObj [(''message'', JStr ''test'')]
   \<and> distinct (map fst [(''key'', JStr ''value'')])
   \<and> distinct (map fst [(''message'', JStr ''test'')])
   \<and> (\<exists>b. create_handler post_operation test_example ''put'' post_request =
              Inr \<lparr>status_code = 200, body = JObj b\<rparr>
          \<and> map_of b = map_of [(''message'', JStr ''test'')] ++ map_of [(''key'', JStr ''value'')]
          \<and> distinct (map fst b))
   \<and> \<not> (is_dict (JObj [(''key'', JStr ''value'')]) \<and> is_dict (JStr ''plain''))
   \<and> create_handler post_operation (JStr ''plain'') ''put'' post_request =
       Inr \<lparr>status_code = 200, body = JStr ''plain''\<rparr>"
proof -
  note th = put_handler[OF operation_ok_samples(2) upper_put]
  have c0: "json (post_request\<lparr>json := None\<rparr>) = None"
    by simp
  have c2: "json post_request = Some (JObj [(''key'', JStr ''value'')])"
    "test_example = JObj [(''message'', JStr ''test'')]"
    "distinct (map fst [(''key'', JStr ''value'')])"
    "distinct (map fst [(''message'', JStr ''test'')])"
    by (simp_all add: post_request_def test_example_def)
  have c3: "\<not> (is_dict (JObj [(''key'', JStr ''value'')]) \<and> is_dict (JStr ''plain''))"
    by (simp add: is_dict_def)
  from th[of empty_request test_example] is_json_samples(2)
  have r0: "create_handler post_operation test_example ''put'' empty_request =
       Inr \<lparr>status_code = 400, body = JObj [(''error'', JStr ''Invalid request body'')]\<rparr>"
    by blast
  from th[of "post_request\<lparr>json := None\<rparr>" test_example] c0
  have r1: "create_handler post_operation test_example ''put'' (post_request\<lparr>json := None\<rparr>) =
       Inr \<lparr>status_code = 400, body = JObj [(''error'', JStr ''Invalid request body'')]\<rparr>"
    by blast
  from th[of post_request test_example "[(''key'', JStr ''value'')]"
      "[(''message'', JStr ''test'')]"] is_json_samples(1) c2
  have r2: "\<exists>b. create_handler post_operation test_example ''put'' post_request =
              Inr \<lparr>status_code = 200, body = JObj b\<rparr>
          \<and> map_of b = map_of [(''message'', JStr ''test'')] ++ map_of [(''key'', JStr ''value'')]
          \<and> distinct (map fst b)"
    by blast
  from th[of post_request "JStr ''plain''" _ _ "JObj [(''key'', JStr ''value'')]"]
    is_json_samples(1) c2(1) c3
  have r3: "create_handler post_operation (JStr ''plain'') ''put'' post_request =
       Inr \<lparr>status_code = 200, body = JStr ''plain''\<rparr>"
    by blast
  from operation_ok_samples(2) upper_put is_json_samples(1,2) r0 c0 r1 c2 r2 c3 r3 show ?thesis
    by blast
qed

text \<open>
  A PUT request whose content type is \<^verbatim>\<open>text/plain\<close> and whose body is the JSON object
  \<^verbatim>\<open>{"key": "value"}\<close>, with a dict for example: the answer is 400, not the merge.
\<close>

theorem put_handler_counterexample:
  "operation_ok post_operation \<and> upper ''put'' = ''PUT''
   \<and> content_type (post_request\<lparr>content_type := Some ''text/plain''\<rparr>) = Some ''text/plain''
   \<and> json (post_request\<lparr>content_type := Some ''text/plain''\<rparr>) =
        Some (JObj [(''key'', JStr ''value'')])
   \<and> test_example = JObj [(''message'', JStr ''test'')]
   \<and> create_handler post_operation test_example ''put''
        (post_request\<lparr>content_type := Some ''text/plain''\<rparr>) =
       Inr \<lparr>status_code = 400, body = JObj [(''error'', JStr ''Invalid request body'')]\<rparr>"
proof -
  have "collect_query_params post_operation (post_request\<lparr>content_type := Some ''text/plain''\<rparr>)
          = Inr []"
    by (simp add: collect_query_params_def py_get_def py_iter_def post_operation_def dict_get_def)
  then have "create_handler post_operation test_example ''put''
        (post_request\<lparr>content_type := Some ''text/plain''\<rparr>) =
       Inr \<lparr>status_code = 400, body = JObj [(''error'', JStr ''Invalid request body'')]\<rparr>"
    by (simp add: create_handler_def upper_put request_json_def is_json_samples(3) jsonify_def
        make_response_def)
  then show ?thesis
    by (simp add: operation_ok_samples(2) upper_put post_request_def test_example_def)
qed

lemma query_params_loop_step:
  "query_params_loop (p # ps) req qp = Inr qp' \<Longrightarrow>
   \<exists>qp1. query_params_loop ps req qp1 = Inr qp'
     \<and> (qp \<noteq> [] \<longrightarrow> qp1 \<noteq> []) \<and> (query_name p \<noteq> None \<longrightarrow> qp1 \<noteq> [])"
  by (auto simp: query_name_def dict_set_not_Nil split: jsonv.splits if_splits option.splits)

lemma query_params_loop_nonempty:
  "query_params_loop ps req qp = Inr qp' \<Longrightarrow>
   qp \<noteq> [] \<or> List.map_filter query_name ps \<noteq> [] \<Longrightarrow> qp' \<noteq> []"
proof (induction ps arbitrary: qp)
  case Nil
  then show ?case by simp
next
  case (Cons p ps)
  from query_params_loop_step[OF Cons.prems(1)]
  obtain qp1 where 1: "query_params_loop ps req qp1 = Inr qp'"
    and 2: "qp \<noteq> [] \<longrightarrow> qp1 \<noteq> []" and 3: "query_name p \<noteq> None \<longrightarrow> qp1 \<noteq> []"
    by blast
  from Cons.prems(2) 2 3 have "qp1 \<noteq> [] \<or> List.map_filter query_name ps \<noteq> []"
    by (cases "query_name p") auto
  with Cons.IH[OF 1] show ?case by blast
qed

lemma collect_query_params_nonempty:
  assumes "collect_query_params operation req = Inr qp"
    and "declared_query_names operation \<noteq> []"
  shows "qp \<noteq> []"
proof -
  from assms(2) obtain op ps where op: "operation = JObj op"
    and ps: "dict_get op ''parameters'' = Some (JArr ps)"
    by (auto simp: declared_query_names_def declared_parameters_def
        split: jsonv.splits option.splits)
  from assms(2) have "List.map_filter query_name ps \<noteq> []"
    by (simp add: declared_query_names_def declared_parameters_def op ps)
  moreover from assms(1) have "query_params_loop ps req [] = Inr qp"
    by (simp add: collect_query_params_def py_get_def py_iter_def op ps)
  ultimately show ?thesis
    using query_params_loop_nonempty by blast
qed

text \<open>
  C1, as amended. A handler built with method GET for an operation of the data model: when
  the operation declares no query parameter it answers 200 with the example unchanged;
  when it declares at least one and the example is a dict, it answers 200 with a dict that
  holds the example's items and, under \<^verbatim>\<open>query_params\<close> (replacing an item of that name),
  the dict that maps each declared query name to the request's value of that name, or to
  \<^verbatim>\<open>None\<close> when the request has none.
\<close>

theorem get_handler:
  assumes "operation_ok operation" and "upper method = ''GET''"
  shows
   "(declared_query_names operation = [] \<longrightarrow>
       create_handler operation example method req = Inr \<lparr>status_code = 200, body = example\<rparr>)
    \<and> (declared_query_names operation \<noteq> [] \<and> example = JObj e \<and> distinct (map fst e) \<longrightarrow>
       (\<exists>b qp. create_handler operation example method req =
                 Inr \<lparr>status_code = 200, body = JObj b\<rparr>
          \<and> map_of b = (map_of e)(''query_params'' \<mapsto> JObj qp)
          \<and> distinct (map fst b)
          \<and> map_of qp = (\<lambda>n. if n \<in> set (declared_query_names operation)
                              then Some (args_get req n) else None)
          \<and> distinct (map fst qp)))"
proof -
  from collect_query_params_ok[OF assms(1), of req]
  obtain qp where qp: "collect_query_params operation req = Inr qp"
    and vals: "\<forall>n. dict_get qp n =
           (if n \<in> set (declared_query_names operation) then Some (args_get req n) else None)"
    and dist: "distinct (map fst qp)"
    and empty: "qp = [] \<longleftrightarrow> declared_query_names operation = []"
    by blast
  have 1: "declared_query_names operation = [] \<Longrightarrow>
       create_handler operation example method req = Inr \<lparr>status_code = 200, body = example\<rparr>"
    using empty by (simp add: create_handler_def qp assms(2) jsonify_def)
  have m: "map_of qp = (\<lambda>n. if n \<in> set (declared_query_names operation)
                              then Some (args_get req n) else None)"
    using vals by (auto simp: dict_get_def)
  have 2: "declared_query_names operation \<noteq> [] \<Longrightarrow> example = JObj e \<Longrightarrow> distinct (map fst e) \<Longrightarrow>
       (\<exists>b qp. create_handler operation example method req =
                 Inr \<lparr>status_code = 200, body = JObj b\<rparr>
          \<and> map_of b = (map_of e)(''query_params'' \<mapsto> JObj qp)
          \<and> distinct (map fst b)
          \<and> map_of qp = (\<lambda>n. if n \<in> set (declared_query_names operation)
                              then Some (args_get req n) else None)
          \<and> distinct (map fst qp))"
  proof -
    assume ne: "declared_query_names operation \<noteq> []" and ex: "example = JObj e"
      and de: "distinct (map fst e)"
    let ?b = "dict_set ''query_params'' (JObj qp) (dict_update [] e)"
    have "create_handler operation example method req = Inr \<lparr>status_code = 200, body = JObj ?b\<rparr>"
      using ne empty by (simp add: create_handler_def qp assms(2) jsonify_def ex)
    with query_display[OF de, of "''query_params''" "JObj qp"] m dist show ?thesis
      by blast
  qed
  from 1 2 show ?thesis by blast
qed

theorem get_handler_witness:
  "operation_ok get_operation \<and> upper ''get'' = ''GET''
   \<and> declared_query_names get_operation \<noteq> []
   \<and> test_example = JObj [(''message'', JStr ''test'')]
   \<and> distinct (map fst [(''message'', JStr ''test'')])
   \<and> (\<exists>b qp. create_handler get_operation test_example ''get'' get_request =
                 Inr \<lparr>status_code = 200, body = JObj b\<rparr>
          \<and> map_of b = (map_of [(''message'', JStr ''test'')])(''query_params'' \<mapsto> JObj qp)
          \<and> distinct (map fst b)
          \<and> map_of qp = (\<lambda>n. if n \<in> set (declared_query_names get_operation)
                              then Some (args_get get_request n) else None)
          \<and> distinct (map fst qp))
   \<and> declared_query_names post_operation = []
   \<and> create_handler post_operation test_example ''get'' get_request =
        Inr \<lparr>status_code = 200, body = test_example\<rparr>"
proof -
  have n: "declared_query_names get_operation \<noteq> []" by (simp add: get_operation_names)
  have e: "test_example = JObj [(''message'', JStr ''test'')]" by (simp add: test_example_def)
  have d: "distinct (map fst [(''message'', JStr ''test'')])" by simp
  have p: "declared_query_names post_operation = []"
    by (simp add: declared_query_names_def declared_parameters_def post_operation_def dict_get_def)
  from get_handler[OF operation_ok_samples(1) upper_get,
      of test_example get_request "[(''message'', JStr ''test'')]"] n e d
  have 1: "\<exists>b qp. create_handler get_operation test_example ''get'' get_request =
                 Inr \<lparr>status_code = 200, body = JObj b\<rparr>
          \<and> map_of b = (map_of [(''message'', JStr ''test'')])(''query_params'' \<mapsto> JObj qp)
          \<and> distinct (map fst b)
          \<and> map_of qp = (\<lambda>n. if n \<in> set (declared_query_names get_operation)
                              then Some (args_get get_request n) else None)
          \<and> distinct (map fst qp)"
    by blast
  from get_handler[OF operation_ok_samples(2) upper_get, of test_example get_request] p
  have 2: "create_handler post_operation test_example ''get'' get_request =
        Inr \<lparr>status_code = 200, body = test_example\<rparr>"
    by blast
  from operation_ok_samples(1) upper_get n e d 1 p 2 show ?thesis by blast
qed

theorem get_handler_counterexample:
  "operation_ok get_operation \<and> upper ''get'' = ''GET''
   \<and> declared_query_names get_operation = [''param1'']
   \<and> create_handler get_operation (JArr [test_example]) ''get'' get_request = Inl TypeError"
  by (simp add: operation_ok_samples upper_get get_operation_names)
     (simp add: create_handler_def collect_query_params_def py_get_def py_iter_def get_operation_def
      dict_get_def args_get_def get_request_def upper_get)

lemma get_handler_test:
  "create_handler get_operation test_example ''get'' get_request =
     Inr \<lparr>status_code = 200,
          body = JObj [(''message'', JStr ''test''),
                       (''query_params'', JObj [(''param1'', JStr ''value1'')])]\<rparr>"
  by (simp add: create_handler_def collect_query_params_def py_get_def py_iter_def get_operation_def
      dict_get_def args_get_def get_request_def upper_get test_example_def jsonify_def
      dict_update_def)

text \<open>
  C10. A handler built with method GET for an operation that declares a query parameter,
  with an example that is not a dict, never returns a response: on an operation of the
  data model the dict display raises \<^verbatim>\<open>TypeError\<close>. So the answer 200 with
  \<^verbatim>\<open>query_params\<close> is reached only with a dict for example.
\<close>

theorem get_handler_needs_dict:
  assumes "upper method = ''GET''" and "declared_query_names operation \<noteq> []"
    and "\<not> is_dict example"
  shows "create_handler operation example method req \<noteq> Inr resp
    \<and> (operation_ok operation \<longrightarrow> create_handler operation example method req = Inl TypeError)"
proof -
  have a: "create_handler operation example method req \<noteq> Inr resp"
  proof (cases "collect_query_params operation req")
    case (Inl err)
    then show ?thesis by (simp add: create_handler_def)
  next
    case (Inr qp)
    from collect_query_params_nonempty[OF Inr assms(2)] have "qp \<noteq> []" .
    with assms(1,3) Inr show ?thesis
      by (simp add: create_handler_def is_dict_def split: jsonv.splits)
  qed
  have b: "create_handler operation example method req = Inl TypeError" if "operation_ok operation"
  proof -
    from collect_query_params_ok[OF that, of req] assms(2)
    obtain qp where "collect_query_params operation req = Inr qp" and "qp \<noteq> []" by blast
    with assms(1,3) show ?thesis
      by (simp add: create_handler_def is_dict_def split: jsonv.splits)
  qed
  from a b show ?thesis by blast
qed

theorem get_handler_needs_dict_witness:
  "upper ''get'' = ''GET'' \<and> declared_query_names get_operation \<noteq> []
   \<and> \<not> is_dict (JStr ''plain'') \<and> operation_ok get_operation
   \<and> create_handler get_operation (JStr ''plain'') ''get'' get_request
        \<noteq> Inr \<lparr>status_code = 200, body = JStr ''plain''\<rparr>
   \<and> create_handler get_operation (JStr ''plain'') ''get'' get_request = Inl TypeError"
proof -
  have n: "declared_query_names get_operation \<noteq> []" by (simp add: get_operation_names)
  have e: "\<not> is_dict (JStr ''plain'')" by (simp add: is_dict_def)
  from get_handler_needs_dict[OF upper_get n e, of get_request
      "\<lparr>status_code = 200, body = JStr ''plain''\<rparr>"] operation_ok_samples(1) upper_get n e
  show ?thesis by blast
qed

section \<open>Example resolution and registration\<close>

lemma str_int_200: "str_int 200 = ''200''" by code_simp

lemma resolve_declared:
  assumes "declared_example operation = Some ex"
  shows "resolve_example operation = Inr ex"
proof -
  from assms obtain op rs r c m where
    "operation = JObj op" "dict_get op ''responses'' = Some (JObj rs)"
    "dict_get rs ''200'' = Some (JObj r)" "dict_get r ''content'' = Some (JObj c)"
    "dict_get c ''application/json'' = Some (JObj m)" "dict_get m ''example'' = Some ex"
    by (auto simp: declared_example_def split: jsonv.splits option.splits)
  then show ?thesis
    by (simp add: resolve_example_def py_get_def py_in_def py_index_def)
qed

lemma resolve_default:
  assumes "responses_ok operation" and "declared_example operation = None"
  shows "resolve_example operation = Inr (generate_default_response 200 ''application/json'')"
proof -
  from assms(1) obtain op where op: "operation = JObj op"
    by (cases operation) (simp_all add: responses_ok_def)
  show ?thesis
  proof (cases "dict_get op ''responses''")
    case None
    then show ?thesis
      by (simp add: op resolve_example_def py_get_def py_in_def dict_get_Nil)
  next
    case rsp: (Some x)
    with assms(1) op obtain rs where x: "x = JObj rs"
      by (cases x) (simp_all add: responses_ok_def)
    show ?thesis
    proof (cases "dict_get rs ''200''")
      case None
      then show ?thesis
        by (simp add: op rsp x resolve_example_def py_get_def py_in_def)
    next
      case r200: (Some y)
      with assms(1) op rsp x obtain r where y: "y = JObj r"
        by (cases y) (simp_all add: responses_ok_def)
      show ?thesis
      proof (cases "dict_get r ''content''")
        case None
        then show ?thesis
          by (simp add: op rsp x r200 y resolve_example_def py_get_def py_in_def py_index_def)
      next
        case cont: (Some z)
        with assms(1) op rsp x r200 y obtain c where z: "z = JObj c"
          by (cases z) (simp_all add: responses_ok_def)
        show ?thesis
        proof (cases "dict_get c ''application/json''")
          case None
          then show ?thesis
            by (simp add: op rsp x r200 y cont z resolve_example_def py_get_def py_in_def
                py_index_def dict_get_Nil)
        next
          case med: (Some w)
          with assms(1) op rsp x r200 y cont z obtain m where w: "w = JObj m"
            by (cases w) (simp_all add: responses_ok_def)
          from assms(2) have "dict_get m ''example'' = None"
            by (simp add: declared_example_def op rsp x r200 y cont z med w)
          then show ?thesis
            by (simp add: op rsp x r200 y cont z med w resolve_example_def py_get_def py_in_def
                py_index_def)
        qed
      qed
    qed
  qed
qed

text \<open>
  C4. Example resolution returns the declared example as it is when the operation has a
  response for \<^verbatim>\<open>"200"\<close> whose \<^verbatim>\<open>content\<close> has an \<^verbatim>\<open>application/json\<close> entry with an
  \<^verbatim>\<open>example\<close> field. Otherwise, on an operation of the data model, it returns the
  synthesized default \<^verbatim>\<open>{"status": 200, "message": "Default response"}\<close>, which is what
  \<^verbatim>\<open>generate_default_response\<close> gives for the JSON media type; for any other media type
  asked of it, \<^verbatim>\<open>generate_default_response\<close> gives the string
  \<^verbatim>\<open>Default response with status 200\<close>.
\<close>

theorem resolve_example_policy:
  "(declared_example operation = Some ex \<longrightarrow> resolve_example operation = Inr ex)
   \<and> (responses_ok operation \<and> declared_example operation = None \<longrightarrow>
        resolve_example operation =
          Inr (JObj [(''status'', JNum 200), (''message'', JStr ''Default response'')]))
   \<and> generate_default_response 200 ''application/json'' =
        JObj [(''status'', JNum 200), (''message'', JStr ''Default response'')]
   \<and> (media_type \<noteq> ''application/json'' \<longrightarrow>
        generate_default_response 200 media_type = JStr ''Default response with status 200'')"
proof -
  have d: "generate_default_response 200 ''application/json'' =
        JObj [(''status'', JNum 200), (''message'', JStr ''Default response'')]"
    by (simp add: generate_default_response_def)
  have o: "media_type \<noteq> ''application/json'' \<Longrightarrow>
        generate_default_response 200 media_type = JStr ''Default response with status 200''"
    by (simp add: generate_default_response_def str_int_200)
  have a: "declared_example operation = Some ex \<Longrightarrow> resolve_example operation = Inr ex"
    by (rule resolve_declared)
  have b: "responses_ok operation \<Longrightarrow> declared_example operation = None \<Longrightarrow>
        resolve_example operation =
          Inr (JObj [(''status'', JNum 200), (''message'', JStr ''Default response'')])"
    using resolve_default[of operation] d by simp
  from a b d o show ?thesis by blast
qed


theorem resolve_example_policy_witness:
  "declared_example get_operation = Some test_example
   \<and> resolve_example get_operation = Inr test_example
   \<and> responses_ok (JObj [(''responses'', JObj [(''200'', JObj [(''description'', JStr ''ok'')])])])
   \<and> declared_example (JObj [(''responses'', JObj [(''200'', JObj [(''description'', JStr ''ok'')])])]) = None
   \<and> resolve_example (JObj [(''responses'', JObj [(''200'', JObj [(''description'', JStr ''ok'')])])]) =
        Inr (JObj [(''status'', JNum 200), (''message'', JStr ''Default response'')])
   \<and> ''text/plain'' \<noteq> ''application/json''
   \<and> generate_default_response 200 ''text/plain'' = JStr ''Default response with status 200''"
proof -
  let ?op = "JObj [(''responses'', JObj [(''200'', JObj [(''description'', JStr ''ok'')])])]"
  have 1: "declared_example get_operation = Some test_example"
    by (simp add: declared_example_def get_operation_def test_example_def dict_get_def)
  have 2: "responses_ok ?op" "declared_example ?op = None"
    by (simp_all add: responses_ok_def declared_example_def dict_get_def)
  have 3: "''text/plain'' \<noteq> ''application/json''" by simp
  from resolve_example_policy[of get_operation test_example "''text/plain''"] 1 3
  have 4: "resolve_example get_operation = Inr test_example"
    "generate_default_response 200 ''text/plain'' = JStr ''Default response with status 200''"
    by blast+
  from resolve_example_policy[of ?op _ "''text/plain''"] 2
  have 5: "resolve_example ?op =
        Inr (JObj [(''status'', JNum 200), (''message'', JStr ''Default response'')])"
    by blast
  from 1 2 3 4 5 show ?thesis by blast
qed

lemma register_methods_count:
  "register_methods refuses flask_path ms a = Inr a' \<Longrightarrow>
   length (url_map a') = length (url_map a) + length ms
   \<and> meter a' = meter a
   \<and> dynamic_routes_counter a' = dynamic_routes_counter a + (if meter a then length ms else 0)"
proof (induction ms arbitrary: a)
  case Nil
  then show ?case by simp
next
  case (Cons x ms)
  obtain m oper where x: "x = (m, oper)" by (cases x)
  from Cons.prems obtain example a1 where
    ex: "resolve_example oper = Inr example" and
    add: "add_url_rule refuses
            \<lparr>rule = flask_path, endpoint = flask_path @ ''_'' @ m,
             methods = [upper m],
             view_func = create_handler oper example m\<rparr>
            (if meter a then a\<lparr>dynamic_routes_counter := dynamic_routes_counter a + 1\<rparr> else a)
          = Inr a1" and
    rest: "register_methods refuses flask_path ms a1 = Inr a'"
    by (auto simp: x split: sum.splits)
  from add have a1: "length (url_map a1) = length (url_map a) + 1" "meter a1 = meter a"
    "dynamic_routes_counter a1 = dynamic_routes_counter a + (if meter a then 1 else 0)"
    by (auto simp: add_url_rule_def split: if_splits)
  from Cons.IH[OF rest] a1 show ?case by simp
qed

lemma register_paths_count:
  "register_paths refuses ps a = Inr a' \<Longrightarrow>
   length (url_map a') = length (url_map a) +
     length (concat (map (\<lambda>(path, ms).
                            case ms of
                              JObj m \<Rightarrow> map (\<lambda>(method, operation). (path, method)) m
                            | _ \<Rightarrow> []) ps))
   \<and> meter a' = meter a
   \<and> dynamic_routes_counter a' = dynamic_routes_counter a +
       (if meter a
        then length (concat (map (\<lambda>(path, ms).
                            case ms of
                              JObj m \<Rightarrow> map (\<lambda>(method, operation). (path, method)) m
                            | _ \<Rightarrow> []) ps))
        else 0)"
proof (induction ps arbitrary: a)
  case Nil
  then show ?case by simp
next
  case (Cons x ps)
  obtain openapi_path path_methods where x: "x = (openapi_path, path_methods)" by (cases x)
  from Cons.prems obtain ms a1 where
    pm: "path_methods = JObj ms" and
    inner: "register_methods refuses (convert_path openapi_path) ms a = Inr a1" and
    rest: "register_paths refuses ps a1 = Inr a'"
    by (auto simp: x split: jsonv.splits sum.splits)
  from register_methods_count[OF inner] Cons.IH[OF rest] show ?case
    by (simp add: x pm)
qed

text \<open>
  C6, as amended. \<^verbatim>\<open>register_routes\<close> returns no value (\<^verbatim>\<open>None\<close>). When it completes
  without raising, it has added one rule to the router for every (path, method) pair of
  the specification's \<^verbatim>\<open>paths\<close> mapping, and, when metering is on, it has incremented the
  counter of dynamic routes by that number.
\<close>

theorem register_routes_count:
  assumes "register_routes refuses a openapi_spec = Inr (ret, a')"
  shows "ret = JNull
    \<and> length (url_map a') = length (url_map a) + count_operations openapi_spec
    \<and> dynamic_routes_counter a' =
        dynamic_routes_counter a + (if meter a then count_operations openapi_spec else 0)"
proof -
  from assms obtain s where s: "openapi_spec = JObj s"
    by (cases openapi_spec) (simp_all add: register_routes_def py_get_def)
  show ?thesis
  proof (cases "dict_get s ''paths''")
    case None
    with assms show ?thesis
      by (auto simp: s register_routes_def py_get_def count_operations_def path_operations_def)
  next
    case (Some x)
    with assms s obtain ps where x: "x = JObj ps"
      by (cases x) (simp_all add: register_routes_def py_get_def)
    from assms have ret: "ret = JNull" and run: "register_paths refuses ps a = Inr a'"
      by (auto simp: s Some x register_routes_def py_get_def split: sum.splits)
    from register_paths_count[OF run] ret show ?thesis
      by (simp add: count_operations_def path_operations_def s Some x)
  qed
qed

lemma register_test_spec:
  "register_routes refuses_nothing fresh_app test_spec =
     Inr (JNull,
          \<lparr>url_map = [\<lparr>rule = ''/test'', endpoint = ''/test_get'', methods = [''GET''],
                       view_func = create_handler post_operation test_example ''get''\<rparr>],
           meter = True, dynamic_routes_counter = 1\<rparr>)"
proof -
  have r: "resolve_example post_operation = Inr test_example"
    using resolve_declared[of post_operation test_example]
    by (simp add: declared_example_def post_operation_def test_example_def dict_get_def)
  have c: "convert_path ''/test'' = ''/test''"
    by (simp add: convert_path_def)
  show ?thesis
    by (simp add: register_routes_def test_spec_def py_get_def dict_get_def r c upper_get
        add_url_rule_def refuses_nothing_def fresh_app_def)
qed

lemma count_test_spec: "count_operations test_spec = 1"
  by (simp add: count_operations_def path_operations_def test_spec_def dict_get_def)

theorem register_routes_count_witness:
  "register_routes refuses_nothing fresh_app test_spec =
     Inr (JNull,
          \<lparr>url_map = [\<lparr>rule = ''/test'', endpoint = ''/test_get'', methods = [''GET''],
                       view_func = create_handler post_operation test_example ''get''\<rparr>],
           meter = True, dynamic_routes_counter = 1\<rparr>)
   \<and> length [\<lparr>rule = ''/test'', endpoint = ''/test_get'', methods = [''GET''],
                       view_func = create_handler post_operation test_example ''get''\<rparr>]
       = length (url_map fresh_app) + count_operations test_spec
   \<and> (1::nat) = dynamic_routes_counter fresh_app + count_operations test_spec
   \<and> meter fresh_app"
  using register_routes_count[OF register_test_spec] register_test_spec
  by (simp add: fresh_app_def)

theorem register_routes_returns_count_counterexample:
  "count_operations test_spec = 1
   \<and> register_routes refuses_nothing fresh_app test_spec =
     Inr (JNull,
          \<lparr>url_map = [\<lparr>rule = ''/test'', endpoint = ''/test_get'', methods = [''GET''],
                       view_func = create_handler post_operation test_example ''get''\<rparr>],
           meter = True, dynamic_routes_counter = 1\<rparr>)
   \<and> JNull \<noteq> JNum 1"
  by (simp add: count_test_spec register_test_spec)

section \<open>The handler writes only to objects it creates\<close>

lemma store_setitem_last:
  "store_setitem (length h0) k v (h0 @ [JObj qp]) = Inr (h0 @ [JObj (dict_set k v qp)])"
  by (simp add: store_setitem_def)

lemma query_params_loop_st_refines:
  "\<exists>qp'. query_params_loop_st ps req (length h0) (h0 @ [JObj qp]) =
           (case query_params_loop ps req qp of Inl err \<Rightarrow> Some err | Inr q \<Rightarrow> None,
            h0 @ [JObj qp'])
        \<and> (\<forall>q. query_params_loop ps req qp = Inr q \<longrightarrow> qp' = q)"
proof (induction ps arbitrary: qp)
  case Nil
  then show ?case by simp
next
  case (Cons p ps)
  show ?case
  proof (cases "\<exists>d n. p = JObj d \<and> dict_get d ''in'' = Some (JStr ''query'')
                    \<and> dict_get d ''name'' = Some (JStr n)")
    case True
    then obtain d n where p: "p = JObj d" "dict_get d ''in'' = Some (JStr ''query'')"
      "dict_get d ''name'' = Some (JStr n)" by blast
    from Cons.IH[of "dict_set n (args_get req n) qp"] show ?thesis
      by (simp add: p store_setitem_last)
  next
    case False
    show ?thesis
    proof (cases "\<exists>d. p = JObj d \<and> dict_get d ''in'' \<noteq> Some (JStr ''query'')")
      case True
      then obtain d where p: "p = JObj d" "dict_get d ''in'' \<noteq> Some (JStr ''query'')" by blast
      from Cons.IH[of qp] show ?thesis
        by (simp add: p)
    next
      case nq: False
      with False show ?thesis
        by (cases p) (auto split: option.splits jsonv.splits)
    qed
  qed
qed


lemma respond_new_eq:
  "respond_new v status h = (Inr (make_response (jsonify v) status), h @ [v])"
  by (simp add: respond_new_def alloc_def)

lemma make_response_200: "make_response (jsonify v) 200 = jsonify v"
  by (simp add: make_response_def jsonify_def)

lemma respond_st_refines:
  assumes "example_ref < length h" and "collect_query_params operation req = Inr q"
  shows "fst (respond_st example_ref method req (length h) (h @ [JObj q])) =
           create_handler operation (h ! example_ref) method req
         \<and> take (length h) (snd (respond_st example_ref method req (length h) (h @ [JObj q]))) = h"
proof -
  have e: "(h @ [x]) ! example_ref = h ! example_ref" for x
    using assms(1) by (simp add: nth_append)
  consider (post) "upper method = ''POST''"
    | (get) "upper method = ''GET''"
    | (put) "upper method = ''PUT''"
    | (delete) "upper method = ''DELETE''"
    | (other) "upper method \<noteq> ''POST''" "upper method \<noteq> ''GET''"
        "upper method \<noteq> ''PUT''" "upper method \<noteq> ''DELETE''"
    by blast
  then show ?thesis
  proof cases
    case post
    then show ?thesis
      by (simp add: respond_st_def create_handler_def assms(2) e respond_new_eq
          make_response_200 split: option.splits jsonv.splits)
  next
    case get
    then show ?thesis
      by (simp add: respond_st_def create_handler_def assms(2) e respond_new_eq
          make_response_200 split: jsonv.splits)
  next
    case put
    then show ?thesis
      by (simp add: respond_st_def create_handler_def assms(2) e respond_new_eq
          make_response_200 split: option.splits jsonv.splits)
  next
    case delete
    then show ?thesis
      by (simp add: respond_st_def create_handler_def assms(2) respond_new_eq)
  next
    case other
    then show ?thesis
      by (simp add: respond_st_def create_handler_def assms(2) respond_new_eq)
  qed
qed

lemma handler_st_refines:
  assumes "operation_ref < length h" and "example_ref < length h"
  shows "fst (handler_st operation_ref example_ref method req h) =
           create_handler (h ! operation_ref) (h ! example_ref) method req
         \<and> take (length h) (snd (handler_st operation_ref example_ref method req h)) = h"
proof -
  have o: "(h @ [JObj []]) ! operation_ref = h ! operation_ref"
    using assms(1) by (simp add: nth_append)
  show ?thesis
  proof (cases "py_get (h ! operation_ref) ''parameters'' (JArr [])")
    case (Inl err)
    then show ?thesis
      by (simp add: handler_st_def alloc_def o create_handler_def collect_query_params_def)
  next
    case parameters: (Inr parameters)
    show ?thesis
    proof (cases "py_iter parameters")
      case (Inl err)
      with parameters show ?thesis
        by (simp add: handler_st_def alloc_def o create_handler_def collect_query_params_def)
    next
      case params: (Inr params)
      from query_params_loop_st_refines[of params req h "[]"]
      obtain qp' where
        run: "query_params_loop_st params req (length h) (h @ [JObj []]) =
                (case query_params_loop params req [] of Inl err \<Rightarrow> Some err | Inr q \<Rightarrow> None,
                 h @ [JObj qp'])"
        and same: "\<forall>q. query_params_loop params req [] = Inr q \<longrightarrow> qp' = q"
        by blast
      show ?thesis
      proof (cases "query_params_loop params req []")
        case (Inl err)
        with parameters params run show ?thesis
          by (simp add: handler_st_def alloc_def o create_handler_def collect_query_params_def)
      next
        case (Inr q)
        with same have q: "qp' = q" by simp
        have c: "collect_query_params (h ! operation_ref) req = Inr q"
          by (simp add: collect_query_params_def parameters params Inr)
        have "handler_st operation_ref example_ref method req h =
                respond_st example_ref method req (length h) (h @ [JObj q])"
          using parameters params run Inr q
          by (simp add: handler_st_def alloc_def o)
        with respond_st_refines[OF assms(2) c, of "method"] show ?thesis
          by simp
      qed
    qed
  qed
qed



lemma take_prefix_facts:
  assumes "take (length h) h' = h"
  shows "length h \<le> length h'" and "i < length h \<Longrightarrow> h' ! i = h ! i"
proof -
  from arg_cong[OF assms, of length] show "length h \<le> length h'"
    by simp
  show "h' ! i = h ! i" if "i < length h"
    using nth_take[OF that, of h'] assms by simp
qed

lemma serve_refines:
  assumes "operation_ref < length h" and "example_ref < length h"
  shows "fst (serve operation_ref example_ref method reqs h) =
           map (create_handler (h ! operation_ref) (h ! example_ref) method) reqs
         \<and> take (length h) (snd (serve operation_ref example_ref method reqs h)) = h"
  using assms
proof (induction reqs arbitrary: h)
  case Nil
  then show ?case by simp
next
  case (Cons req reqs)
  obtain r h' where step: "handler_st operation_ref example_ref method req h = (r, h')"
    by (cases "handler_st operation_ref example_ref method req h")
  from handler_st_refines[OF Cons.prems, of "method" req] step
  have r: "r = create_handler (h ! operation_ref) (h ! example_ref) method req"
    and frame: "take (length h) h' = h"
    by simp_all
  note len = take_prefix_facts(1)[OF frame]
  have o: "h' ! operation_ref = h ! operation_ref"
    and e: "h' ! example_ref = h ! example_ref"
    using take_prefix_facts(2)[OF frame] Cons.prems by simp_all
  from len Cons.prems have b: "operation_ref < length h'" "example_ref < length h'"
    by simp_all
  from Cons.IH[OF b] have
    1: "fst (serve operation_ref example_ref method reqs h') =
           map (create_handler (h ! operation_ref) (h ! example_ref) method) reqs" and
    2: "take (length h') (snd (serve operation_ref example_ref method reqs h')) = h'"
    by (simp_all add: o e)
  from arg_cong[OF 2, of "take (length h)"] len frame
  have 3: "take (length h) (snd (serve operation_ref example_ref method reqs h')) = h"
    by (simp add: min_def)
  from 1 3 r step show ?case
    by (simp add: split_beta)
qed


text \<open>
  C9. No run of a handler writes to the captured operation or example: after any sequence
  of requests served by a handler whose captured references are valid, the objects at
  those references, and every object that was in the store before, are what they were at
  build time; the merged dicts and \<^verbatim>\<open>query_params\<close> are new objects, past the store's old
  end. So every request is answered from the same base example: the responses are those of
  \<^verbatim>\<open>create_handler\<close> on the operation and example as captured.
\<close>

theorem handlers_keep_captured:
  assumes "operation_ref < length h" and "example_ref < length h"
  shows "snd (serve operation_ref example_ref method reqs h) ! example_ref = h ! example_ref
    \<and> snd (serve operation_ref example_ref method reqs h) ! operation_ref = h ! operation_ref
    \<and> take (length h) (snd (serve operation_ref example_ref method reqs h)) = h
    \<and> fst (serve operation_ref example_ref method reqs h) =
        map (create_handler (h ! operation_ref) (h ! example_ref) method) reqs"
proof -
  from serve_refines[OF assms, of "method" reqs] have
    1: "fst (serve operation_ref example_ref method reqs h) =
           map (create_handler (h ! operation_ref) (h ! example_ref) method) reqs" and
    2: "take (length h) (snd (serve operation_ref example_ref method reqs h)) = h"
    by simp_all
  from take_prefix_facts(2)[OF 2] assms 1 2 show ?thesis
    by simp
qed

theorem handlers_keep_captured_witness:
  "0 < length [get_operation, test_example] \<and> Suc 0 < length [get_operation, test_example]
   \<and> snd (serve 0 (Suc 0) ''get'' [get_request, empty_request] [get_operation, test_example])
        ! Suc 0 = test_example
   \<and> snd (serve 0 (Suc 0) ''get'' [get_request, empty_request] [get_operation, test_example])
        ! 0 = get_operation
   \<and> take (length [get_operation, test_example]) (snd (serve 0 (Suc 0) ''get'' [get_request, empty_request]
                    [get_operation, test_example])) = [get_operation, test_example]
   \<and> fst (serve 0 (Suc 0) ''get'' [get_request, empty_request] [get_operation, test_example]) =
        [create_handler get_operation test_example ''get'' get_request,
         create_handler get_operation test_example ''get'' empty_request]"
  using handlers_keep_captured[of 0 "[get_operation, test_example]" "Suc 0" "''get''"
      "[get_request, empty_request]"]
  by (simp del: serve.simps)

lemma serve_test:
  "serve 0 (Suc 0) ''get'' [get_request] [get_operation, test_example] =
     ([Inr \<lparr>status_code = 200,
             body = JObj [(''message'', JStr ''test''),
                          (''query_params'', JObj [(''param1'', JStr ''value1'')])]\<rparr>],
      [get_operation, test_example,
       JObj [(''param1'', JStr ''value1'')],
       JObj [(''message'', JStr ''test''),
             (''query_params'', JObj [(''param1'', JStr ''value1'')])]])"
  by (simp add: handler_st_def respond_st_def alloc_def respond_new_eq py_get_def py_iter_def
      get_operation_def test_example_def get_request_def dict_get_def store_setitem_def
      args_get_def upper_get dict_update_def make_response_def jsonify_def)

end
